theory Spec2Isabelle
  imports Main
begin

section \<open>Strings\<close>

text \<open>
  Go strings are byte sequences; they are modelled as \<^typ>\<open>string\<close>.
  \<open>strings.ToLower\<close> is modelled on the ASCII letters, which is all that the
  comparison with the ASCII word \<open>select\<close> in \<open>allowed\<close> can see.
\<close>

definition lower_char :: "char \<Rightarrow> char" where
  "lower_char c =
     (let n = (of_char c :: nat) in if 65 \<le> n \<and> n \<le> 90 then char_of (n + 32) else c)"

definition ToLower :: "string \<Rightarrow> string" where
  "ToLower s = map lower_char s"

definition HasPrefix :: "string \<Rightarrow> string \<Rightarrow> bool" where
  "HasPrefix s pre = (length pre \<le> length s \<and> take (length pre) s = pre)"

section \<open>The syntax tree of the query language\<close>

text \<open>
  The proxy reads three things of a parsed statement: whether it is a
  \<open>*influxql.SelectStatement\<close>, its rendering \<open>String()\<close>, and the measurements
  of its \<open>Sources\<close>. A measurement carries its qualifiers, its name and, for a
  pattern source, the regular expression (then the name is empty). A source is a
  measurement or a subquery, that is a nested select statement. Of a select
  statement the model keeps the rendered field expressions and the sources.
  Statements of any other kind are values of the type parameter \<open>'o\<close>.
\<close>

record Measurement =
  Database :: string
  RetentionPolicy :: string
  Name :: string
  Regex :: "string option"

datatype Source = MeasurementSource Measurement | SubQuery SelectStatement
  and SelectStatement = Select (Fields: "string list") (Sources: "Source list")

datatype 'o Statement = SelectStmt SelectStatement | OtherStmt 'o

text \<open>
  Modelled from the spec: \<open>Sources.Measurements()\<close> belongs to the influxql
  package, whose code is not among the sources of the repository. The spec
  describes it: source extraction walks the FROM clause recursively; if a clause
  item is a nested select, it descends into it and extracts its sources too, and
  unions them with the outer statement's direct sources. The result is a list, in
  the order of the clause.
\<close>

fun Measurements :: "Source list \<Rightarrow> Measurement list" where
  "Measurements [] = []"
| "Measurements (MeasurementSource m # a) = m # Measurements a"
| "Measurements (SubQuery (Select fs srcs) # a) = Measurements srcs @ Measurements a"

section \<open>Errors\<close>

text \<open>
  The four error values of \<open>proxy.go\<close>, and the error that \<open>allowed\<close> builds with
  \<open>fmt.Errorf\<close> around the parser's error; \<open>Error\<close> is the message of each.
\<close>

datatype error =
    ErrQueryEmpty
  | ErrQueryNotAllowed
  | ErrQueryNotSupported
  | ErrMethodNotAllowed
  | ErrParsing string


text \<open>A failed type assertion \<open>stmt.(*influxql.SelectStatement)\<close> panics.\<close>

datatype panic = TypeAssertionFailed

section \<open>What the program takes from outside its sources\<close>

text \<open>
  The values \<open>json.Marshal\<close> is given: a struct is an object, the list of its
  fields under their JSON names, and a Go string is a JSON string.
\<close>

datatype json = JString string | JObject "(string \<times> json) list"

text \<open>
  The parser and the renderer of the influxql package, \<open>json.Marshal\<close> (it
  returns the bytes of the encoding or fails), and the two strings injected at
  build time.
\<close>

record 'o Env =
  ParseStatement :: "string \<Rightarrow> string + 'o Statement"
  String :: "'o Statement \<Rightarrow> string"
  Marshal :: "json \<Rightarrow> string option"
  version :: string
  commit :: string

section \<open>The admission check\<close>

fun lookup :: "string list \<Rightarrow> string \<Rightarrow> bool" where
  "lookup [] name = False"
| "lookup (item # rest) name = (if item = name then True else lookup rest name)"

text \<open>The loop of \<open>allowed\<close> over the measurements: it returns at the first one
  that \<open>lookup\<close> does not find, and \<open>nil\<close> (here \<open>None\<close>) after the last.\<close>

fun allowed_loop :: "string list \<Rightarrow> Measurement list \<Rightarrow> error option" where
  "allowed_loop allowlist [] = None"
| "allowed_loop allowlist (m # ms) =
     (if \<not> lookup allowlist (Name m) then Some ErrQueryNotAllowed
      else allowed_loop allowlist ms)"

text \<open>\<open>allowed\<close> returns \<open>nil\<close> (\<open>Inr None\<close>), an error (\<open>Inr (Some e)\<close>), or
  panics (\<open>Inl\<close>) at the type assertion.\<close>

definition allowed :: "'o Env \<Rightarrow> string \<Rightarrow> string list \<Rightarrow> panic + error option" where
  "allowed E q allowlist =
     (if q = [] then Inr (Some ErrQueryEmpty)
      else case ParseStatement E q of
        Inl err \<Rightarrow> Inr (Some (ErrParsing err))
      | Inr stmt \<Rightarrow>
          if \<not> HasPrefix (ToLower (String E stmt)) ''select'' then Inr (Some ErrQueryNotAllowed)
          else (case stmt of
            OtherStmt x \<Rightarrow> Inl TypeAssertionFailed
          | SelectStmt selectStmt \<Rightarrow>
              Inr (allowed_loop allowlist (Measurements (Sources selectStmt)))))"

section \<open>The handler\<close>














section \<open>An environment for the examples\<close>

text \<open>
  The general theorems below hold for every environment. Their instances at
  concrete queries need one: \<open>TestEnv\<close> answers the queries listed in
  \<open>TestQueries\<close> with the statement that \<open>ParseStatement\<close> of the influxql package
  returns for them, and every other query with an error. \<open>ParseStatement\<close> reads
  one statement and leaves the rest of the input unread, so a batch is answered
  with its first statement. A pattern source is a measurement with a regular
  expression and an empty name. The rendering covers statements made of fields
  and sources whose identifiers need no quoting: \<open>SELECT\<close>, the fields, \<open>FROM\<close>,
  the sources.
\<close>

datatype OtherStatement = DropDatabaseStatement string

definition measurement :: "string \<Rightarrow> string \<Rightarrow> string \<Rightarrow> Measurement" where
  "measurement db rp n = \<lparr>Database = db, RetentionPolicy = rp, Name = n, Regex = None\<rparr>"

definition pattern :: "string \<Rightarrow> Measurement" where
  "pattern re = \<lparr>Database = [], RetentionPolicy = [], Name = [], Regex = Some re\<rparr>"

definition TestQueries :: "(string \<times> OtherStatement Statement) list" where
  "TestQueries =
    [(''select a FROM m0'',
        SelectStmt (Select [''a''] [MeasurementSource (measurement [] [] ''m0'')])),
     (''select a FROM m1'',
        SelectStmt (Select [''a''] [MeasurementSource (measurement [] [] ''m1'')])),
     (''select a FROM /.*/'',
        SelectStmt (Select [''a''] [MeasurementSource (pattern ''.*'')])),
     (''select a FROM (SELECT * FROM (SELECT * FROM m1))'',
        SelectStmt (Select [''a''] [SubQuery (Select [''*'']
          [SubQuery (Select [''*''] [MeasurementSource (measurement [] [] ''m1'')])])])),
     (''select a FROM (SELECT * FROM m1), m4'',
        SelectStmt (Select [''a'']
          [SubQuery (Select [''*''] [MeasurementSource (measurement [] [] ''m1'')]),
           MeasurementSource (measurement [] [] ''m4'')])),
     (''select a FROM db.rt.m1'',
        SelectStmt (Select [''a''] [MeasurementSource (measurement ''db'' ''rt'' ''m1'')])),
     (''select a FROM db..m2'',
        SelectStmt (Select [''a''] [MeasurementSource (measurement ''db'' [] ''m2'')])),
     (''select a FROM db.rt.m4'',
        SelectStmt (Select [''a''] [MeasurementSource (measurement ''db'' ''rt'' ''m4'')])),
     (''select a FROM (SELECT * FROM M1)'',
        SelectStmt (Select [''a'']
          [SubQuery (Select [''*''] [MeasurementSource (measurement [] [] ''M1'')])])),
     (''select a FROM (SELECT * FROM /.*/)'',
        SelectStmt (Select [''a''] [SubQuery (Select [''*''] [MeasurementSource (pattern ''.*'')])])),
     (''select a FROM m1;SELECT b FROM m3'',
        SelectStmt (Select [''a''] [MeasurementSource (measurement [] [] ''m1'')])),
     (''drop database test'',
        OtherStmt (DropDatabaseStatement ''test''))]"

definition TestParseStatement :: "string \<Rightarrow> string + OtherStatement Statement" where
  "TestParseStatement q =
     (case map_of TestQueries q of
        Some stmt \<Rightarrow> Inr stmt
      | None \<Rightarrow> Inl ''not one of the test queries'')"

fun Join :: "string list \<Rightarrow> string \<Rightarrow> string" where
  "Join [] sep = []"
| "Join [x] sep = x"
| "Join (x # y # ys) sep = x @ sep @ Join (y # ys) sep"

definition RenderMeasurement :: "Measurement \<Rightarrow> string" where
  "RenderMeasurement m =
     (if Database m = [] then [] else Database m @ ''.'') @
     RetentionPolicy m @
     (if Database m = [] \<and> RetentionPolicy m = [] then [] else ''.'') @
     (if Name m = [] then (case Regex m of None \<Rightarrow> [] | Some re \<Rightarrow> ''/'' @ re @ ''/'')
      else Name m)"

fun RenderSource :: "Source \<Rightarrow> string"
  and RenderSelect :: "SelectStatement \<Rightarrow> string" where
  "RenderSource (MeasurementSource m) = RenderMeasurement m"
| "RenderSource (SubQuery stmt) = ''('' @ RenderSelect stmt @ '')''"
| "RenderSelect (Select fs srcs) =
     ''SELECT '' @ Join fs '', '' @
     (if srcs = [] then [] else '' FROM '' @ Join (map RenderSource srcs) '', '')"

fun TestString :: "OtherStatement Statement \<Rightarrow> string" where
  "TestString (SelectStmt stmt) = RenderSelect stmt"
| "TestString (OtherStmt (DropDatabaseStatement n)) = ''DROP DATABASE '' @ n"

text \<open>\<open>json.Marshal\<close> of an object with one string field, for names and
  values that need no escaping; other values are not used in the examples.\<close>

fun TestMarshal :: "json \<Rightarrow> string option" where
  \<open>TestMarshal (JObject [(k, JString v)]) = Some (''{"'' @ k @ ''":"'' @ v @ ''"}'')\<close>
| \<open>TestMarshal v = None\<close>

definition TestEnv :: "OtherStatement Env" where
  "TestEnv = \<lparr>ParseStatement = TestParseStatement, String = TestString,
     Marshal = TestMarshal, version = ''v1'', commit = ''c0ffee''\<rparr>"



section \<open>The leaf measurements of a statement\<close>

text \<open>
  The measurements at the leaves of the nesting, as a set: a measurement source is
  its own leaf, a subquery has the leaves of its statement, and a statement has
  the leaves of all its sources. Lemma \<open>set_Measurements\<close> compares
  \<open>Measurements\<close> with it: the extraction reaches exactly the leaves.
\<close>

primrec leaves :: "Source \<Rightarrow> Measurement set"
  and select_leaves :: "SelectStatement \<Rightarrow> Measurement set" where
  "leaves (MeasurementSource m) = {m}"
| "leaves (SubQuery stmt) = select_leaves stmt"
| "select_leaves (Select fs srcs) = \<Union> (set (map leaves srcs))"

section \<open>Lemmas on the admission check\<close>

lemma lookup_iff: "lookup allowlist name \<longleftrightarrow> name \<in> set allowlist"
  by (induction allowlist) auto

lemma allowed_loop_None_iff:
  "allowed_loop allowlist ms = None \<longleftrightarrow> (\<forall>m \<in> set ms. Name m \<in> set allowlist)"
  by (induction ms) (auto simp: lookup_iff)

lemma allowed_loop_Some:
  "allowed_loop allowlist ms = Some e \<Longrightarrow> e = ErrQueryNotAllowed"
  by (induction ms) (auto split: if_splits)

lemma set_Measurements: "set (Measurements srcs) = \<Union> (leaves ` set srcs)"
  by (induction srcs rule: Measurements.induct) auto

lemma allowed_select:
  assumes "q \<noteq> []" and "ParseStatement E q = Inr (SelectStmt stmt)"
    and "HasPrefix (ToLower (String E (SelectStmt stmt))) ''select''"
  shows "allowed E q allowlist = Inr (allowed_loop allowlist (Measurements (Sources stmt)))"
  using assms by (simp add: allowed_def)

text \<open>The type assertion is reached with a statement of another kind exactly when
  the renderer gives such a statement a text that begins, up to case, with
  \<open>select\<close>.\<close>

lemma allowed_panics_iff:
  "allowed E q allowlist = Inl pn \<longleftrightarrow>
     q \<noteq> [] \<and> (\<exists>x. ParseStatement E q = Inr (OtherStmt x) \<and>
                    HasPrefix (ToLower (String E (OtherStmt x))) ''select'')"
  by (cases pn) (auto simp: allowed_def split: sum.splits Statement.splits)

section \<open>Lemmas on the replies\<close>




section \<open>Properties\<close>

text \<open>
  C7. For the empty raw query and every allow-list, the empty one included, the
  admission check returns \<open>ErrQueryEmpty\<close>; the parser is not consulted: the
  result is the same whatever the parser is.
\<close>

theorem allowed_empty_query: "allowed E [] allowlist = Inr (Some ErrQueryEmpty)"
  by (simp add: allowed_def)

text \<open>
  C8. A query that parses, and whose statement is not a select by the test of the
  code (its rendering, lowercased, does not begin with \<open>select\<close>), is answered
  with \<open>ErrQueryNotAllowed\<close>, whatever the allow-list. The query is not empty,
  since the empty query is answered before it is parsed.
\<close>

theorem allowed_not_select:
  assumes "q \<noteq> []" and "ParseStatement E q = Inr stmt"
    and "\<not> HasPrefix (ToLower (String E stmt)) ''select''"
  shows "allowed E q allowlist = Inr (Some ErrQueryNotAllowed)"
  using assms by (simp add: allowed_def)

theorem allowed_not_select_witness:
  "ParseStatement TestEnv ''drop database test'' = Inr (OtherStmt (DropDatabaseStatement ''test'')) \<and>
   \<not> HasPrefix (ToLower (String TestEnv (OtherStmt (DropDatabaseStatement ''test'')))) ''select'' \<and>
   allowed TestEnv ''drop database test'' [''test''] = Inr (Some ErrQueryNotAllowed)"
proof -
  have n: "''drop database test'' \<noteq> []"
    by simp
  have p: "ParseStatement TestEnv ''drop database test'' = Inr (OtherStmt (DropDatabaseStatement ''test''))"
    by code_simp
  have h: "\<not> HasPrefix (ToLower (String TestEnv (OtherStmt (DropDatabaseStatement ''test'')))) ''select''"
    by code_simp
  show ?thesis
    using allowed_not_select [OF n p h, of "[''test'']"] p h by blast
qed

text \<open>
  C9. Admission is monotone in the allow-list: if every entry of \<open>allowlist\<close>
  occurs in \<open>allowlist'\<close> and the query is admitted under \<open>allowlist\<close>, it is
  admitted under \<open>allowlist'\<close>.
\<close>

theorem allowed_mono:
  assumes "set allowlist \<subseteq> set allowlist'" and "allowed E q allowlist = Inr None"
  shows "allowed E q allowlist' = Inr None"
proof -
  have mono: "allowed_loop allowlist ms = None \<Longrightarrow> allowed_loop allowlist' ms = None" for ms
    using assms(1) by (auto simp: allowed_loop_None_iff)
  show ?thesis
    using assms(2) mono
    by (auto simp: allowed_def split: if_splits sum.splits Statement.splits)
qed

theorem allowed_mono_witness:
  "set [''m0''] \<subseteq> set [''m0'', ''m1''] \<and> allowed TestEnv ''select a FROM m0'' [''m0''] = Inr None \<and>
   allowed TestEnv ''select a FROM m0'' [''m0'', ''m1''] = Inr None"
proof -
  have s: "set [''m0''] \<subseteq> set [''m0'', ''m1'']"
    by simp
  have a: "allowed TestEnv ''select a FROM m0'' [''m0''] = Inr None"
    by code_simp
  show ?thesis
    using allowed_mono [OF s a] s a by blast
qed

text \<open>
  C5. Only the name of a measurement takes part in the matching. A select
  statement is admitted exactly when the name of every measurement it reads is
  an entry of the allow-list, and is refused with \<open>ErrQueryNotAllowed\<close>
  otherwise; the database and the retention policy of a measurement do not
  occur in the condition. So \<open>db.rt.m1\<close> is admitted under an allow-list with
  the entry \<open>m1\<close> and refused under the allow-list \<open>db, rt\<close>. An entry of the
  list is found as \<open>lookup\<close> finds it.
\<close>

theorem allowed_matches_names_only:
  assumes "q \<noteq> []" and "ParseStatement E q = Inr (SelectStmt stmt)"
    and "HasPrefix (ToLower (String E (SelectStmt stmt))) ''select''"
  shows "(allowed E q allowlist = Inr None \<longleftrightarrow>
            (\<forall>m \<in> set (Measurements (Sources stmt)). Name m \<in> set allowlist)) \<and>
         (allowed E q allowlist = Inr None \<or> allowed E q allowlist = Inr (Some ErrQueryNotAllowed))"
proof -
  have run: "allowed E q allowlist = Inr (allowed_loop allowlist (Measurements (Sources stmt)))"
    using assms by (rule allowed_select)
  have admit: "allowed E q allowlist = Inr None \<longleftrightarrow>
      (\<forall>m \<in> set (Measurements (Sources stmt)). Name m \<in> set allowlist)"
    by (simp add: run allowed_loop_None_iff)
  have answer: "allowed E q allowlist = Inr None \<or> allowed E q allowlist = Inr (Some ErrQueryNotAllowed)"
  proof (cases "allowed_loop allowlist (Measurements (Sources stmt))")
    case None
    then show ?thesis by (simp add: run)
  next
    case (Some e)
    then have "e = ErrQueryNotAllowed" by (rule allowed_loop_Some)
    with Some show ?thesis by (simp add: run)
  qed
  from admit answer show ?thesis by (rule conjI)
qed

theorem allowed_matches_names_only_witness:
  "allowed TestEnv ''select a FROM db.rt.m1'' [''m0'', ''m1'', ''m2''] = Inr None \<and>
   allowed TestEnv ''select a FROM db..m2'' [''m0'', ''m1'', ''m2''] = Inr None \<and>
   allowed TestEnv ''select a FROM db.rt.m4'' [''m0'', ''m1'', ''m2''] = Inr (Some ErrQueryNotAllowed) \<and>
   allowed TestEnv ''select a FROM db.rt.m1'' [''db'', ''rt''] = Inr (Some ErrQueryNotAllowed)"
proof -
  let ?q1 = "''select a FROM db.rt.m1''"
  let ?s1 = "Select [''a''] [MeasurementSource (measurement ''db'' ''rt'' ''m1'')]"
  let ?q2 = "''select a FROM db..m2''"
  let ?s2 = "Select [''a''] [MeasurementSource (measurement ''db'' [] ''m2'')]"
  let ?q4 = "''select a FROM db.rt.m4''"
  let ?s4 = "Select [''a''] [MeasurementSource (measurement ''db'' ''rt'' ''m4'')]"
  have n1: "?q1 \<noteq> []" and n2: "?q2 \<noteq> []" and n4: "?q4 \<noteq> []"
    by simp_all
  have p1: "ParseStatement TestEnv ?q1 = Inr (SelectStmt ?s1)"
    by code_simp
  have p2: "ParseStatement TestEnv ?q2 = Inr (SelectStmt ?s2)"
    by code_simp
  have p4: "ParseStatement TestEnv ?q4 = Inr (SelectStmt ?s4)"
    by code_simp
  have h1: "HasPrefix (ToLower (String TestEnv (SelectStmt ?s1))) ''select''"
    by code_simp
  have h2: "HasPrefix (ToLower (String TestEnv (SelectStmt ?s2))) ''select''"
    by code_simp
  have h4: "HasPrefix (ToLower (String TestEnv (SelectStmt ?s4))) ''select''"
    by code_simp
  have in1: "\<forall>m \<in> set (Measurements (Sources ?s1)). Name m \<in> set [''m0'', ''m1'', ''m2'']"
    by (simp add: measurement_def)
  have in2: "\<forall>m \<in> set (Measurements (Sources ?s2)). Name m \<in> set [''m0'', ''m1'', ''m2'']"
    by (simp add: measurement_def)
  have out4: "\<not> (\<forall>m \<in> set (Measurements (Sources ?s4)). Name m \<in> set [''m0'', ''m1'', ''m2''])"
    by (simp add: measurement_def)
  have out1: "\<not> (\<forall>m \<in> set (Measurements (Sources ?s1)). Name m \<in> set [''db'', ''rt''])"
    by (simp add: measurement_def)
  have a1: "allowed TestEnv ?q1 [''m0'', ''m1'', ''m2''] = Inr None"
    using allowed_matches_names_only [OF n1 p1 h1, of "[''m0'', ''m1'', ''m2'']"] in1 by blast
  have a2: "allowed TestEnv ?q2 [''m0'', ''m1'', ''m2''] = Inr None"
    using allowed_matches_names_only [OF n2 p2 h2, of "[''m0'', ''m1'', ''m2'']"] in2 by blast
  have d4: "allowed TestEnv ?q4 [''m0'', ''m1'', ''m2''] = Inr (Some ErrQueryNotAllowed)"
    using allowed_matches_names_only [OF n4 p4 h4, of "[''m0'', ''m1'', ''m2'']"] out4 by blast
  have d1: "allowed TestEnv ?q1 [''db'', ''rt''] = Inr (Some ErrQueryNotAllowed)"
    using allowed_matches_names_only [OF n1 p1 h1, of "[''db'', ''rt'']"] out1 by blast
  show ?thesis
    by (intro conjI) (rule a1 a2 d4 d1)+
qed



text \<open>
  C4. The claim is that a nested query is admitted when every leaf is on the
  allow-list and refused when a leaf is absent from it. The extraction does
  reach the leaves of the nesting, but each leaf is then matched as a leaf of a
  flat query is. The leaf \<open>M1\<close> of \<open>select a FROM (SELECT * FROM M1)\<close> is
  refused under the allow-list \<open>m1\<close>, which holds its name up to case. The
  pattern leaf of \<open>select a FROM (SELECT * FROM /.*/)\<close> is admitted under the
  allow-list made of \<open>m1\<close> and the empty string, which names no leaf of the
  query.
\<close>

theorem allowed_nested_leaf_matching:
  "Measurements (Sources (Select [''a'']
      [SubQuery (Select [''*''] [MeasurementSource (measurement [] [] ''M1'')])])) =
     [measurement [] [] ''M1''] \<and>
   ParseStatement TestEnv ''select a FROM (SELECT * FROM M1)'' =
     Inr (SelectStmt (Select [''a'']
       [SubQuery (Select [''*''] [MeasurementSource (measurement [] [] ''M1'')])])) \<and>
   allowed TestEnv ''select a FROM (SELECT * FROM M1)'' [''m1''] = Inr (Some ErrQueryNotAllowed) \<and>
   ParseStatement TestEnv ''select a FROM (SELECT * FROM /.*/)'' =
     Inr (SelectStmt (Select [''a'']
       [SubQuery (Select [''*''] [MeasurementSource (pattern ''.*'')])])) \<and>
   allowed TestEnv ''select a FROM (SELECT * FROM /.*/)'' [''m1'', []] = Inr None"
  by code_simp

text \<open>
  C1. The claim is that a batch is admitted only if every statement of it is.
  \<open>allowed\<close> calls \<open>ParseStatement\<close>, which returns one statement, and checks that
  one. The batch \<open>select a FROM m1;SELECT b FROM m3\<close> is parsed to its first
  statement; with the allow-list \<open>m1\<close> the code admits it, although the second
  statement reads \<open>m3\<close>.
\<close>

theorem allowed_batch_checks_first_statement_only:
  "ParseStatement TestEnv ''select a FROM m1;SELECT b FROM m3'' =
     Inr (SelectStmt (Select [''a''] [MeasurementSource (measurement [] [] ''m1'')])) \<and>
   allowed TestEnv ''select a FROM m1;SELECT b FROM m3'' [''m1''] = Inr None"
  by code_simp

text \<open>
  C2. The claim is that names are compared up to case. \<open>lookup\<close> compares with
  \<open>==\<close>: the query \<open>select a FROM m0\<close> passes the select test and is refused
  under the allow-list \<open>M0, m1, M2\<close>, where the repository's test
  \<open>mixedCasesAllowed\<close> expects it to be admitted.
\<close>

theorem allowed_compares_case_sensitively:
  "HasPrefix (ToLower (String TestEnv
      (SelectStmt (Select [''a''] [MeasurementSource (measurement [] [] ''m0'')])))) ''select'' \<and>
   lookup [''M0'', ''m1'', ''M2''] ''m0'' = False \<and>
   allowed TestEnv ''select a FROM m0'' [''M0'', ''m1'', ''M2''] = Inr (Some ErrQueryNotAllowed)"
  by code_simp

text \<open>
  C3. The claim is that a pattern source is refused under every allow-list. The
  code has no test for a pattern: the measurement of a pattern source has the
  empty name, and \<open>lookup\<close> finds it when the allow-list has an empty entry, as
  the list made from \<open>-measurements "m1,"\<close> has. Then the query is admitted.
\<close>

theorem allowed_pattern_with_empty_entry:
  "ParseStatement TestEnv ''select a FROM /.*/'' =
     Inr (SelectStmt (Select [''a''] [MeasurementSource (pattern ''.*'')])) \<and>
   allowed TestEnv ''select a FROM /.*/'' [''m1'', []] = Inr None \<and>
   allowed TestEnv ''select a FROM /.*/'' [''m1''] = Inr (Some ErrQueryNotAllowed)"
  by code_simp

end
